theory Spec2Isabelle
  imports Main
begin

section \<open>Strings of the pipeline\<close>

text \<open>
  A Python \<open>str\<close> is a sequence of Unicode code points, so it is modelled as a list of
  natural numbers (the values of \<open>ord\<close>), not as a list of 8-bit characters: the
  tokens of the corpus are Cyrillic and the cleaning deletes U+00AB, U+00BB and U+2014.
  \<open>ascii\<close> writes an ASCII literal as such a list.
\<close>

type_synonym pystr = "nat list"

definition ascii :: "string \<Rightarrow> pystr" where
  "ascii s = map of_char s"

text \<open>
  \<open>string.punctuation\<close>, character by character:
  \<^verbatim>\<open>!"#$%&'()*+,-./\<close> (33 to 47), \<^verbatim>\<open>:;<=>?@\<close> (58 to 64),
  \<^verbatim>\<open>[\]^_`\<close> (91 to 96) and \<^verbatim>\<open>{|}~\<close> (123 to 126).
\<close>

definition string_punctuation :: pystr where
  "string_punctuation =
     [33, 34, 35, 36, 37, 38, 39, 40, 41, 42, 43, 44, 45, 46, 47,
      58, 59, 60, 61, 62, 63, 64,
      91, 92, 93, 94, 95, 96,
      123, 124, 125, 126]"

text \<open>
  The literal appended to it in \<open>get_cleaned\<close>: the two guillemets U+00AB and U+00BB,
  the em dash U+2014 and the percent sign (which \<open>string.punctuation\<close> holds already).
\<close>

definition extra_marks :: pystr where
  "extra_marks = [171, 187, 8212, 37]"

text \<open>
  \<open>str.maketrans(x, y, z)\<close> builds a table from code points: each character of \<open>x\<close>
  goes to the character of \<open>y\<close> at the same place, then each character of \<open>z\<close> goes
  to \<open>None\<close>. In the table, \<open>Some None\<close> is Python's \<open>None\<close> (delete the
  character), \<open>Some (Some d)\<close> a replacement, and \<open>None\<close> a missing key.
\<close>

definition maketrans :: "pystr \<Rightarrow> pystr \<Rightarrow> pystr \<Rightarrow> (nat \<rightharpoonup> nat option)" where
  "maketrans x y z =
     fold (\<lambda>c tab. tab(c \<mapsto> None)) z
       (fold (\<lambda>(a, b) tab. tab(a \<mapsto> Some b)) (zip x y) Map.empty)"

text \<open>
  \<open>str.translate(table)\<close>: a character missing from the table is kept, one mapped to
  \<open>None\<close> is dropped, one mapped to a code point is replaced.
\<close>

fun translate :: "(nat \<rightharpoonup> nat option) \<Rightarrow> pystr \<Rightarrow> pystr" where
  "translate tab [] = []"
| "translate tab (c # cs) =
     (case tab c of
        None \<Rightarrow> c # translate tab cs
      | Some None \<Rightarrow> translate tab cs
      | Some (Some d) \<Rightarrow> d # translate tab cs)"

text \<open>
  \<open>str.lower\<close> is the runtime's, driven by the Unicode character database. The
  functions below take it as the parameter \<open>lower\<close>. \<open>lower_code_point\<close> is that
  table on the alphabet of the corpus, ASCII and the Cyrillic block: \<open>A\<close> to \<open>Z\<close>
  and U+0410 to U+042F move up by 32, U+0400 to U+040F by 80; it is used where a
  concrete string is evaluated.
\<close>

definition lower_code_point :: "nat \<Rightarrow> nat" where
  "lower_code_point c =
     (if 65 \<le> c \<and> c \<le> 90 then c + 32
      else if 1040 \<le> c \<and> c \<le> 1071 then c + 32
      else if 1024 \<le> c \<and> c \<le> 1039 then c + 80
      else c)"

definition str_lower :: "pystr \<Rightarrow> pystr" where
  "str_lower s = map lower_code_point s"

section \<open>Tokens and sentences\<close>

text \<open>
  \<open>MorphologicalTokenDTO.__init__\<close> takes \<open>lemma\<close>, \<open>pos\<close> and \<open>tags\<close> and stores
  none of them: the object it builds has no attribute.
\<close>

datatype MorphologicalTokenDTO = MorphologicalTokenDTO_object

definition MorphologicalTokenDTO_init :: "pystr \<Rightarrow> pystr \<Rightarrow> pystr \<Rightarrow> MorphologicalTokenDTO" where
  "MorphologicalTokenDTO_init lemma_arg pos tags = MorphologicalTokenDTO_object"

text \<open>\<open>ConlluToken.__init__\<close> stores the text and nothing else.\<close>

record ConlluToken =
  token_text :: pystr

definition ConlluToken_init :: "pystr \<Rightarrow> ConlluToken" where
  "ConlluToken_init t = \<lparr>token_text = t\<rparr>"

text \<open>
  The bodies of \<open>set_morphological_parameters\<close> and \<open>get_morphological_parameters\<close>
  are a docstring only: the first leaves the token as it is, the second returns
  Python's \<open>None\<close>, here the \<open>None\<close> of an option.
\<close>

definition set_morphological_parameters :: "ConlluToken \<Rightarrow> MorphologicalTokenDTO \<Rightarrow> ConlluToken" where
  "set_morphological_parameters tok parameters = tok"

definition get_morphological_parameters :: "ConlluToken \<Rightarrow> MorphologicalTokenDTO option" where
  "get_morphological_parameters tok = None"

definition get_cleaned :: "(pystr \<Rightarrow> pystr) \<Rightarrow> ConlluToken \<Rightarrow> pystr" where
  "get_cleaned lower tok =
     lower (translate (maketrans [] [] (string_punctuation @ extra_marks)) (token_text tok))"

record ConlluSentence =
  position :: int
  sentence_text :: pystr
  tokens :: "ConlluToken list"

definition ConlluSentence_init :: "int \<Rightarrow> pystr \<Rightarrow> ConlluToken list \<Rightarrow> ConlluSentence" where
  "ConlluSentence_init p t ts = \<lparr>position = p, sentence_text = t, tokens = ts\<rparr>"

text \<open>\<open>sep.join(words)\<close>.\<close>

fun str_join :: "pystr \<Rightarrow> pystr list \<Rightarrow> pystr" where
  "str_join sep [] = []"
| "str_join sep [w] = w"
| "str_join sep (w # v # ws) = w @ sep @ str_join sep (v # ws)"

text \<open>
  \<open>get_cleaned_sentence\<close> joins, with one space, the cleaned form of every token whose
  cleaned form is truthy, that is, not the empty string.
\<close>

definition get_cleaned_sentence :: "(pystr \<Rightarrow> pystr) \<Rightarrow> ConlluSentence \<Rightarrow> pystr" where
  "get_cleaned_sentence lower s =
     str_join [32]
       (map (get_cleaned lower) (filter (\<lambda>tok. get_cleaned lower tok \<noteq> []) (tokens s)))"

section \<open>The basic pipeline\<close>

text \<open>
  \<open>str.split()\<close> with no argument cuts at runs of whitespace and yields no empty
  string. The whitespace characters are those of \<open>str.isspace\<close>: U+0009 to U+000D,
  U+001C to U+0020, U+0085, U+00A0, U+1680, U+2000 to U+200A, U+2028, U+2029, U+202F,
  U+205F and U+3000.
\<close>

definition is_space :: "nat \<Rightarrow> bool" where
  "is_space c =
     (9 \<le> c \<and> c \<le> 13 \<or> 28 \<le> c \<and> c \<le> 32 \<or> c = 133 \<or> c = 160 \<or> c = 5760
      \<or> 8192 \<le> c \<and> c \<le> 8202 \<or> c = 8232 \<or> c = 8233 \<or> c = 8239 \<or> c = 8287
      \<or> c = 12288)"

text \<open>\<open>split_acc w s\<close>: the words of \<open>s\<close>, with \<open>w\<close> the word being read.\<close>

fun split_acc :: "pystr \<Rightarrow> pystr \<Rightarrow> pystr list" where
  "split_acc w [] = (if w = [] then [] else [w])"
| "split_acc w (c # cs) =
     (if is_space c then (if w = [] then split_acc [] cs else w # split_acc [] cs)
      else split_acc (w @ [c]) cs)"

definition str_split :: "pystr \<Rightarrow> pystr list" where
  "str_split s = split_acc [] s"

fun enumerate_from :: "int \<Rightarrow> 'a list \<Rightarrow> (int \<times> 'a) list" where
  "enumerate_from i [] = []"
| "enumerate_from i (x # xs) = (i, x) # enumerate_from (i + 1) xs"

text \<open>
  The loop of \<open>_process\<close> over \<open>enumerate(split_by_sentence(text))\<close>. Its body binds
  \<open>conllu_sentences\<close> to a list of one sentence and returns it, so the first
  iteration ends the call; with nothing to iterate over the function falls off its end
  and returns Python's \<open>None\<close>.
\<close>

fun process_loop :: "(int \<times> pystr) list \<Rightarrow> ConlluSentence list option" where
  "process_loop [] = None"
| "process_loop ((idx, sentence) # rest) =
     Some [ConlluSentence_init idx sentence (map ConlluToken_init (str_split sentence))]"

text \<open>
  \<open>MorphologicalAnalysisPipeline._process\<close>. The segmentation collaborator
  \<open>split_by_sentence\<close> of \<open>core_utils\<close> is a parameter.
\<close>

definition process :: "(pystr \<Rightarrow> pystr list) \<Rightarrow> pystr \<Rightarrow> ConlluSentence list option" where
  "process split_by_sentence text = process_loop (enumerate_from 0 (split_by_sentence text))"

text \<open>
  The collaborator's \<open>Article\<close>, with the two members this module touches: the text it
  reads and the slot \<open>set_conllu_sentences\<close> writes.
\<close>

record Article =
  article_text :: pystr
  conllu_sentences :: "ConlluSentence list option"

definition set_conllu_sentences :: "Article \<Rightarrow> ConlluSentence list option \<Rightarrow> Article" where
  "set_conllu_sentences article sentences = article\<lparr>conllu_sentences := sentences\<rparr>"

text \<open>
  \<open>run\<close> over the values of the storage, in the order of insertion. The writer
  \<open>to_cleaned\<close> is a collaborator: the model records the articles it is called with.
\<close>

fun run_loop :: "(pystr \<Rightarrow> pystr list) \<Rightarrow> (int \<times> Article) list \<Rightarrow> Article list
    \<Rightarrow> (int \<times> Article) list \<times> Article list" where
  "run_loop split_by_sentence [] written = ([], written)"
| "run_loop split_by_sentence ((k, article) # rest) written =
     (let article' = set_conllu_sentences article (process split_by_sentence (article_text article));
          (rest', written') = run_loop split_by_sentence rest (written @ [article'])
      in ((k, article') # rest', written'))"

definition run :: "(pystr \<Rightarrow> pystr list) \<Rightarrow> (int \<times> Article) list
    \<Rightarrow> (int \<times> Article) list \<times> Article list" where
  "run split_by_sentence storage = run_loop split_by_sentence storage []"

section \<open>The corpus manager\<close>

text \<open>
  The exceptions a construction can end with: the two the module declares, the two
  built-in ones it raises, and the \<open>IndexError\<close> and \<open>ValueError\<close> of its indexing
  and of \<open>int\<close>.
\<close>

datatype error =
    FileNotFoundError
  | NotADirectoryError
  | InconsistentDatasetError
  | EmptyDirectoryError
  | IndexError
  | ValueError

text \<open>
  What the file system holds at \<open>path_to_raw_txt_data\<close>: nothing, something that is
  not a directory, or a directory with its entries in the order the system lists them
  (the order of \<open>glob\<close>).
\<close>

record dir_entry =
  entry_name :: pystr
  st_size :: nat

datatype fs_node = Missing | NotDirectory | Directory "dir_entry list"

definition listing :: "fs_node \<Rightarrow> dir_entry list" where
  "listing node = (case node of Directory entries \<Rightarrow> entries | _ \<Rightarrow> [])"

definition endswith :: "pystr \<Rightarrow> pystr \<Rightarrow> bool" where
  "endswith s suffix =
     (length suffix \<le> length s \<and> drop (length s - length suffix) s = suffix)"

text \<open>
  \<open>glob('*' + suffix)\<close> for a suffix without wildcard: the entries whose names end
  with it; \<open>glob('*')\<close> is the whole listing.
\<close>

definition glob :: "pystr \<Rightarrow> fs_node \<Rightarrow> dir_entry list" where
  "glob suffix node = filter (\<lambda>e. endswith (entry_name e) suffix) (listing node)"

text \<open>
  \<open>str(path / name)\<close>, from \<open>str(path)\<close>: \<open>.\<close> vanishes and the root keeps
  its one slash.
\<close>

definition joinpath :: "pystr \<Rightarrow> pystr \<Rightarrow> pystr" where
  "joinpath path name =
     (if path = ascii ''.'' then name
      else if path \<noteq> [] \<and> last path = 47 then path @ name
      else path @ [47] @ name)"

text \<open>
  \<open>int(c)\<close> for a string of one character. The ASCII digits are read; any other
  character is taken as no digit (\<open>int\<close> reads the decimal digits of other scripts
  too, which this table leaves out).
\<close>

definition int_of_character :: "nat \<Rightarrow> error + int" where
  "int_of_character c = (if 48 \<le> c \<and> c \<le> 57 then Inr (int c - 48) else Inl ValueError)"

text \<open>
  \<open>int(str(file).split('_')[0][-1])\<close>: the part of the whole path before its first
  underscore, the last character of that part, read as a number.
\<close>

definition raw_id :: "pystr \<Rightarrow> error + int" where
  "raw_id file =
     (let part = takeWhile (\<lambda>c. c \<noteq> 95) file
      in if part = [] then Inl IndexError else int_of_character (last part))"

text \<open>The generator inside \<open>sorted\<close>: the first file that raises ends it.\<close>

fun collect_ids :: "pystr list \<Rightarrow> error + int list" where
  "collect_ids [] = Inr []"
| "collect_ids (file # files) =
     (case raw_id file of
        Inl e \<Rightarrow> Inl e
      | Inr i \<Rightarrow> (case collect_ids files of Inl e \<Rightarrow> Inl e | Inr ids \<Rightarrow> Inr (i # ids)))"

text \<open>The slice \<open>[::2]\<close>.\<close>

fun every_second :: "'a list \<Rightarrow> 'a list" where
  "every_second [] = []"
| "every_second [x] = [x]"
| "every_second (x # y # xs) = x # every_second xs"

text \<open>
  One turn of the loop over \<open>meta_files, raw_files\<close>: \<open>file[0]\<close> raises
  \<open>IndexError\<close> on an empty list, and only that first file's size is looked at.
\<close>

definition first_file_check :: "dir_entry list \<Rightarrow> error + unit" where
  "first_file_check files =
     (case files of
        [] \<Rightarrow> Inl IndexError
      | f # _ \<Rightarrow> if st_size f = 0 then Inl InconsistentDatasetError else Inr ())"

text \<open>
  \<open>iterdir()\<close> returns a generator object, and a generator is truthy whatever it
  would yield.
\<close>

definition iterdir_truthy :: "fs_node \<Rightarrow> bool" where
  "iterdir_truthy node = True"

definition validate_dataset :: "pystr \<Rightarrow> fs_node \<Rightarrow> error + unit" where
  "validate_dataset path node =
     (case node of
        Missing \<Rightarrow> Inl FileNotFoundError
      | NotDirectory \<Rightarrow> Inl NotADirectoryError
      | Directory entries \<Rightarrow>
          (let meta_files = glob (ascii ''.json'') node;
               raw_files = glob (ascii ''_raw.txt'') node
           in case collect_ids (map (\<lambda>e. joinpath path (entry_name e)) (glob [] node)) of
                Inl e \<Rightarrow> Inl e
              | Inr ids \<Rightarrow>
                  (let raw_ids = sort ids
                   in if raw_ids = [] then Inl IndexError
                      else
                        (let ids_order = [1..last raw_ids]
                         in if length meta_files \<noteq> length raw_files
                               \<or> ids_order \<noteq> every_second raw_ids
                            then Inl InconsistentDatasetError
                            else
                              (case first_file_check meta_files of
                                 Inl e \<Rightarrow> Inl e
                               | Inr _ \<Rightarrow>
                                   (case first_file_check raw_files of
                                      Inl e \<Rightarrow> Inl e
                                    | Inr _ \<Rightarrow>
                                        if \<not> iterdir_truthy node
                                        then Inl EmptyDirectoryError
                                        else Inr ()))))))"

text \<open>\<open>d[k] = v\<close> on a dictionary kept in its order of insertion.\<close>

fun dict_setitem :: "'k \<Rightarrow> 'v \<Rightarrow> ('k \<times> 'v) list \<Rightarrow> ('k \<times> 'v) list" where
  "dict_setitem k v [] = [(k, v)]"
| "dict_setitem k v ((k', v') # rest) =
     (if k' = k then (k', v) # rest else (k', v') # dict_setitem k v rest)"

text \<open>
  \<open>_scan_dataset\<close>. The collaborators \<open>get_article_id_from_filepath\<close> and
  \<open>from_raw\<close> of \<open>core_utils\<close> are parameters; the article type is theirs.
\<close>

definition scan_dataset :: "(pystr \<Rightarrow> int) \<Rightarrow> (pystr \<Rightarrow> 'a) \<Rightarrow> pystr \<Rightarrow> fs_node
    \<Rightarrow> (int \<times> 'a) list \<Rightarrow> (int \<times> 'a) list" where
  "scan_dataset get_article_id_from_filepath from_raw path node storage =
     fold (\<lambda>e st. let file = joinpath path (entry_name e)
                   in dict_setitem (get_article_id_from_filepath file) (from_raw file) st)
       (glob (ascii ''_raw.txt'') node) storage"

record 'a CorpusManager =
  path_to_raw_txt_data :: pystr
  storage :: "(int \<times> 'a) list"

definition CorpusManager_init :: "(pystr \<Rightarrow> int) \<Rightarrow> (pystr \<Rightarrow> 'a) \<Rightarrow> pystr \<Rightarrow> fs_node
    \<Rightarrow> error + 'a CorpusManager" where
  "CorpusManager_init get_article_id_from_filepath from_raw path node =
     (case validate_dataset path node of
        Inl e \<Rightarrow> Inl e
      | Inr _ \<Rightarrow>
          Inr \<lparr>path_to_raw_txt_data = path,
               storage = scan_dataset get_article_id_from_filepath from_raw path node []\<rparr>)"

definition get_articles :: "'a CorpusManager \<Rightarrow> (int \<times> 'a) list" where
  "get_articles manager = storage manager"

section \<open>What the properties speak of\<close>

text \<open>
  ASCII punctuation, said by ranges: the printable ASCII characters that are neither a
  letter, a digit nor the space.
\<close>

definition is_ascii_punctuation :: "nat \<Rightarrow> bool" where
  "is_ascii_punctuation c =
     (33 \<le> c \<and> c \<le> 47 \<or> 58 \<le> c \<and> c \<le> 64 \<or> 91 \<le> c \<and> c \<le> 96 \<or> 123 \<le> c \<and> c \<le> 126)"

text \<open>A character that cleaning removes: ASCII punctuation, a guillemet or the em dash.\<close>

definition is_removed :: "nat \<Rightarrow> bool" where
  "is_removed c = (is_ascii_punctuation c \<or> c = 171 \<or> c = 187 \<or> c = 8212 \<or> c = 37)"

text \<open>Two space characters in a row.\<close>

fun has_double_space :: "pystr \<Rightarrow> bool" where
  "has_double_space (a # b # cs) = (a = 32 \<and> b = 32 \<or> has_double_space (b # cs))"
| "has_double_space [a] = False"
| "has_double_space [] = False"

section \<open>Sample inputs\<close>

text \<open>
  Modelled from the spec: \<open>get_article_id_from_filepath\<close> belongs to \<open>core_utils\<close>,
  which is not among the sources. The spec derives the article ID from the numeric
  prefix of the file name's stem, before its qualifying suffix: the decimal number in
  front of the first underscore of the last path component. It is used for the sample
  corpora below, whose names all start with digits.
\<close>

definition decimal :: "pystr \<Rightarrow> int" where
  "decimal digits = fold (\<lambda>c n. 10 * n + (int c - 48)) digits 0"

definition stem_prefix :: "pystr \<Rightarrow> pystr" where
  "stem_prefix path =
     takeWhile (\<lambda>c. c \<noteq> 95) (rev (takeWhile (\<lambda>c. c \<noteq> 47) (rev path)))"

definition get_article_id_from_filepath :: "pystr \<Rightarrow> int" where
  "get_article_id_from_filepath path = decimal (stem_prefix path)"

definition file_entry :: "string \<Rightarrow> nat \<Rightarrow> dir_entry" where
  "file_entry name size_in_bytes = \<lparr>entry_name = ascii name, st_size = size_in_bytes\<rparr>"

text \<open>The directory of the articles, \<open>tmp/articles\<close> under the project.\<close>

definition tmp_articles :: pystr where
  "tmp_articles = ascii ''tmp/articles''"

text \<open>Three articles, each with its metadata.\<close>

definition corpus_of_three :: fs_node where
  "corpus_of_three = Directory
     [file_entry ''1_raw.txt'' 900, file_entry ''1_meta.json'' 200,
      file_entry ''2_raw.txt'' 900, file_entry ''2_meta.json'' 200,
      file_entry ''3_raw.txt'' 900, file_entry ''3_meta.json'' 200]"

text \<open>Ten articles, IDs 1 to 10, each with its metadata, no file empty.\<close>

definition corpus_of_ten :: fs_node where
  "corpus_of_ten = Directory
     [file_entry ''1_raw.txt'' 900, file_entry ''1_meta.json'' 200,
      file_entry ''2_raw.txt'' 900, file_entry ''2_meta.json'' 200,
      file_entry ''3_raw.txt'' 900, file_entry ''3_meta.json'' 200,
      file_entry ''4_raw.txt'' 900, file_entry ''4_meta.json'' 200,
      file_entry ''5_raw.txt'' 900, file_entry ''5_meta.json'' 200,
      file_entry ''6_raw.txt'' 900, file_entry ''6_meta.json'' 200,
      file_entry ''7_raw.txt'' 900, file_entry ''7_meta.json'' 200,
      file_entry ''8_raw.txt'' 900, file_entry ''8_meta.json'' 200,
      file_entry ''9_raw.txt'' 900, file_entry ''9_meta.json'' 200,
      file_entry ''10_raw.txt'' 900, file_entry ''10_meta.json'' 200]"

text \<open>Articles 1, 2 and 13: the IDs 3 to 12 are missing.\<close>

definition gap_corpus :: fs_node where
  "gap_corpus = Directory
     [file_entry ''1_raw.txt'' 900, file_entry ''1_meta.json'' 200,
      file_entry ''2_raw.txt'' 900, file_entry ''2_meta.json'' 200,
      file_entry ''13_raw.txt'' 900, file_entry ''13_meta.json'' 200]"

text \<open>Articles 1, 2 and 4: the ID 3 is missing.\<close>

definition corpus_1_2_4 :: fs_node where
  "corpus_1_2_4 = Directory
     [file_entry ''1_raw.txt'' 900, file_entry ''1_meta.json'' 200,
      file_entry ''2_raw.txt'' 900, file_entry ''2_meta.json'' 200,
      file_entry ''4_raw.txt'' 900, file_entry ''4_meta.json'' 200]"

text \<open>Two articles; the raw text of the second has no byte.\<close>

definition corpus_with_empty_file :: fs_node where
  "corpus_with_empty_file = Directory
     [file_entry ''1_raw.txt'' 900, file_entry ''1_meta.json'' 200,
      file_entry ''2_raw.txt'' 0, file_entry ''2_meta.json'' 200]"

text \<open>
  The tokens of the spec's examples: \<open>davajte\<close> in guillemets (U+00AB, U+0414, U+0430,
  U+0432, U+0430, U+0439, U+0442, U+0435, U+00BB) and \<open>dni.Majskih\<close> (U+0434, U+043D,
  U+0438, a full stop, U+041C, U+0430, U+0439, U+0441, U+043A, U+0438, U+0445).
\<close>

definition token_davajte :: ConlluToken where
  "token_davajte = ConlluToken_init [171, 1044, 1072, 1074, 1072, 1081, 1090, 1077, 187]"

definition token_dni_majskih :: ConlluToken where
  "token_dni_majskih =
     ConlluToken_init [1076, 1085, 1080, 46, 1052, 1072, 1081, 1089, 1082, 1080, 1093]"

text \<open>
  A sentence of three tokens, the second an em dash alone: the opening guillemet with
  \<open>Davajte\<close>, the dash, and \<open>majskih\<close> with the closing guillemet.
\<close>

definition sentence_with_dash :: ConlluSentence where
  "sentence_with_dash = ConlluSentence_init 0
     [171, 1044, 1072, 1074, 1072, 1081, 1090, 1077, 32, 8212, 32,
      1084, 1072, 1081, 1089, 1082, 1080, 1093, 187]
     [ConlluToken_init [171, 1044, 1072, 1074, 1072, 1081, 1090, 1077],
      ConlluToken_init [8212],
      ConlluToken_init [1084, 1072, 1081, 1089, 1082, 1080, 1093, 187]]"

text \<open>A sentence whose one token holds two spaces in a row.\<close>

definition sentence_with_spaces :: ConlluSentence where
  "sentence_with_spaces =
     ConlluSentence_init 0 (ascii ''a  b'') [ConlluToken_init (ascii ''a  b'')]"

text \<open>A segmentation that answers with two sentences, and one that answers with none.\<close>

definition two_sentences :: "pystr \<Rightarrow> pystr list" where
  "two_sentences text = [ascii ''Hi there.'', ascii ''Bye now.'']"

definition no_sentences :: "pystr \<Rightarrow> pystr list" where
  "no_sentences text = []"

definition two_sentence_article :: Article where
  "two_sentence_article =
     \<lparr>article_text = ascii ''Hi there. Bye now.'', conllu_sentences = Some []\<rparr>"

section \<open>Cleaning a token\<close>

lemma maketrans_delete_fold:
  "fold (\<lambda>c tab. tab(c \<mapsto> None)) z tab0 c = (if c \<in> set z then Some None else tab0 c)"
  by (induction z arbitrary: tab0) auto

lemma maketrans_delete:
  "maketrans [] [] z c = (if c \<in> set z then Some None else None)"
  by (simp add: maketrans_def maketrans_delete_fold)

lemma translate_delete:
  "translate (maketrans [] [] z) s = filter (\<lambda>c. c \<notin> set z) s"
  by (induction s) (simp_all add: maketrans_delete)

lemma removed_characters:
  "c \<in> set (string_punctuation @ extra_marks) \<longleftrightarrow> is_removed c"
  unfolding string_punctuation_def extra_marks_def is_removed_def is_ascii_punctuation_def
  by (simp; presburger)

lemma get_cleaned_filter:
  "get_cleaned lower tok = lower (filter (\<lambda>c. \<not> is_removed c) (token_text tok))"
  by (simp add: get_cleaned_def translate_delete removed_characters del: set_append)

text \<open>
  C6: \<open>get_cleaned\<close> returns the text of the token with every ASCII punctuation
  character, both guillemets, the em dash and the percent sign taken out (nothing is put
  in their place) and the rest lower-cased. The result is a function of the text alone,
  and the token is not part of what the call returns.
\<close>

theorem get_cleaned_removes_and_lowers:
  "get_cleaned lower tok = lower (filter (\<lambda>c. \<not> is_removed c) (token_text tok))"
  by (rule get_cleaned_filter)

text \<open>The spec's example: the full stop inside \<open>dni.Majskih\<close> leaves no gap.\<close>

theorem get_cleaned_example:
  "get_cleaned str_lower token_dni_majskih
     = [1076, 1085, 1080, 1084, 1072, 1081, 1089, 1082, 1080, 1093]"
  unfolding get_cleaned_removes_and_lowers
  by (simp add: token_dni_majskih_def ConlluToken_init_def is_removed_def
      is_ascii_punctuation_def str_lower_def lower_code_point_def)

lemma lower_code_point_idem: "lower_code_point (lower_code_point c) = lower_code_point c"
  by (simp add: lower_code_point_def)

lemma str_lower_idem: "str_lower (str_lower s) = str_lower s"
  by (simp add: str_lower_def lower_code_point_idem)

lemma lower_code_point_removed: "is_removed (lower_code_point c) \<Longrightarrow> is_removed c"
  by (auto simp add: lower_code_point_def is_removed_def is_ascii_punctuation_def
      split: if_splits)

lemma str_lower_keeps_clean:
  "(\<forall>c\<in>set s. \<not> is_removed c) \<longrightarrow> (\<forall>c\<in>set (str_lower s). \<not> is_removed c)"
  by (auto simp add: str_lower_def dest: lower_code_point_removed)

text \<open>
  C7: cleaning is idempotent. A token built from the cleaned form of a token cleans to
  that same form, for every \<open>lower\<close> that is itself idempotent and that brings none of
  the removed characters into a string free of them, as \<open>str.lower\<close> is and does.
\<close>

theorem get_cleaned_idempotent:
  assumes idem: "\<forall>s. lower (lower s) = lower s"
      and keeps: "\<forall>s. (\<forall>c\<in>set s. \<not> is_removed c) \<longrightarrow> (\<forall>c\<in>set (lower s). \<not> is_removed c)"
  shows "get_cleaned lower (ConlluToken_init (get_cleaned lower tok)) = get_cleaned lower tok"
proof -
  let ?kept = "filter (\<lambda>c. \<not> is_removed c) (token_text tok)"
  have "\<forall>c\<in>set ?kept. \<not> is_removed c"
    by simp
  with keeps have "\<forall>c\<in>set (lower ?kept). \<not> is_removed c"
    by blast
  then have "filter (\<lambda>c. \<not> is_removed c) (lower ?kept) = lower ?kept"
    by (rule filter_True)
  moreover have "lower (lower ?kept) = lower ?kept"
    using idem by (rule spec)
  ultimately show ?thesis
    by (simp only: get_cleaned_filter ConlluToken_init_def ConlluToken.simps)
qed

text \<open>The spec's example: \<open>Davajte\<close> in guillemets, cleaned twice.\<close>

theorem get_cleaned_idempotent_example:
  "get_cleaned str_lower (ConlluToken_init (get_cleaned str_lower token_davajte))
     = [1076, 1072, 1074, 1072, 1081, 1090, 1077]"
proof -
  have idem: "\<forall>s. str_lower (str_lower s) = str_lower s"
    by (simp add: str_lower_idem)
  have keeps: "\<forall>s. (\<forall>c\<in>set s. \<not> is_removed c)
      \<longrightarrow> (\<forall>c\<in>set (str_lower s). \<not> is_removed c)"
    using str_lower_keeps_clean by blast
  have "get_cleaned str_lower token_davajte = [1076, 1072, 1074, 1072, 1081, 1090, 1077]"
    by (simp add: get_cleaned_filter token_davajte_def ConlluToken_init_def is_removed_def
        is_ascii_punctuation_def str_lower_def lower_code_point_def)
  then show ?thesis
    using get_cleaned_idempotent [of str_lower token_davajte, OF idem keeps] by simp
qed

section \<open>Cleaning a sentence\<close>

lemma has_double_space_word:
  "32 \<notin> set w \<Longrightarrow> has_double_space (w @ 32 # r) = has_double_space (32 # r)"
proof (induction w)
  case Nil
  then show ?case by simp
next
  case (Cons a w)
  then show ?case by (cases w) auto
qed

lemma has_double_space_no_space: "32 \<notin> set w \<Longrightarrow> \<not> has_double_space w"
  by (induction w rule: has_double_space.induct) auto

lemma str_join_hd:
  "ws \<noteq> [] \<Longrightarrow> hd ws \<noteq> [] \<Longrightarrow> str_join sep ws \<noteq> [] \<and> hd (str_join sep ws) = hd (hd ws)"
  by (induction sep ws rule: str_join.induct) auto

lemma join_words_no_double_space:
  "\<forall>w\<in>set ws. w \<noteq> [] \<and> 32 \<notin> set w \<Longrightarrow> \<not> has_double_space (str_join [32] ws)"
proof (induction "[32::nat]" ws rule: str_join.induct)
  case 1
  then show ?case by simp
next
  case (2 w)
  then show ?case by (simp add: has_double_space_no_space)
next
  case (3 w v ws)
  let ?r = "str_join [32] (v # ws)"
  from 3 have rec: "\<not> has_double_space ?r" by simp
  from 3 have "v \<noteq> []" and "32 \<notin> set v" by simp_all
  then have "hd v \<in> set v" and "32 \<notin> set v"
    by simp_all
  then have "hd v \<noteq> 32"
    by metis
  with \<open>v \<noteq> []\<close> have "?r \<noteq> []" and "hd ?r \<noteq> 32"
    using str_join_hd [of "v # ws" "[32]"] by simp_all
  then have "\<not> has_double_space (32 # ?r)"
    using rec by (cases ?r) auto
  moreover from 3 have "32 \<notin> set w" by simp
  ultimately show ?case
    by (simp add: has_double_space_word)
qed

text \<open>
  C8, as stated, fails: a token may hold spaces itself, and then they reach the cleaned
  sentence.
\<close>

theorem token_with_spaces_doubles:
  "has_double_space (get_cleaned_sentence str_lower sentence_with_spaces)"
proof -
  have "get_cleaned str_lower (ConlluToken_init (ascii ''a  b'')) = [97, 32, 32, 98]"
    by (simp add: get_cleaned_filter ConlluToken_init_def ascii_def is_removed_def
        is_ascii_punctuation_def str_lower_def lower_code_point_def)
  then show ?thesis
    by (simp add: get_cleaned_sentence_def sentence_with_spaces_def ConlluSentence_init_def)
qed

text \<open>
  C8, amended: for every sentence, \<open>get_cleaned_sentence\<close> is the join, by one space,
  of the non-empty cleaned forms of the tokens in their order; and when no cleaned form
  holds a space (as for tokens cut at whitespace), the result has no two spaces in a
  row, also when some tokens clean to the empty string.
\<close>

theorem get_cleaned_sentence_join:
  "get_cleaned_sentence lower s =
     str_join [32] (filter (\<lambda>w. w \<noteq> []) (map (get_cleaned lower) (tokens s)))
   \<and> ((\<forall>tok\<in>set (tokens s). 32 \<notin> set (get_cleaned lower tok))
        \<longrightarrow> \<not> has_double_space (get_cleaned_sentence lower s))"
proof -
  let ?ws = "filter (\<lambda>w. w \<noteq> []) (map (get_cleaned lower) (tokens s))"
  have eq: "get_cleaned_sentence lower s = str_join [32] ?ws"
    unfolding get_cleaned_sentence_def filter_map comp_def ..
  have "(\<forall>tok\<in>set (tokens s). 32 \<notin> set (get_cleaned lower tok))
      \<longrightarrow> \<not> has_double_space (get_cleaned_sentence lower s)"
  proof
    assume no_space: "\<forall>tok\<in>set (tokens s). 32 \<notin> set (get_cleaned lower tok)"
    then have "\<forall>w\<in>set ?ws. w \<noteq> [] \<and> 32 \<notin> set w"
      by auto
    then have "\<not> has_double_space (str_join [32] ?ws)"
      by (rule join_words_no_double_space)
    with eq show "\<not> has_double_space (get_cleaned_sentence lower s)"
      by (simp only: simp_thms)
  qed
  with eq show ?thesis
    by (rule conjI)
qed

text \<open>The dash between the two words cleans to nothing and leaves one space.\<close>

theorem get_cleaned_sentence_example:
  "get_cleaned_sentence str_lower sentence_with_dash
     = [1076, 1072, 1074, 1072, 1081, 1090, 1077, 32, 1084, 1072, 1081, 1089, 1082, 1080, 1093]
   \<and> \<not> has_double_space (get_cleaned_sentence str_lower sentence_with_dash)"
proof -
  have first: "get_cleaned str_lower
        (ConlluToken_init [171, 1044, 1072, 1074, 1072, 1081, 1090, 1077])
      = [1076, 1072, 1074, 1072, 1081, 1090, 1077]"
    by (simp add: get_cleaned_filter ConlluToken_init_def is_removed_def is_ascii_punctuation_def
        str_lower_def lower_code_point_def)
  have second: "get_cleaned str_lower (ConlluToken_init [8212]) = []"
    by (simp add: get_cleaned_filter ConlluToken_init_def is_removed_def is_ascii_punctuation_def
        str_lower_def lower_code_point_def)
  have third: "get_cleaned str_lower
        (ConlluToken_init [1084, 1072, 1081, 1089, 1082, 1080, 1093, 187])
      = [1084, 1072, 1081, 1089, 1082, 1080, 1093]"
    by (simp add: get_cleaned_filter ConlluToken_init_def is_removed_def is_ascii_punctuation_def
        str_lower_def lower_code_point_def)
  have no_space: "\<forall>tok\<in>set (tokens sentence_with_dash). 32 \<notin> set (get_cleaned str_lower tok)"
    by (simp add: sentence_with_dash_def ConlluSentence_init_def first second third)
  have "str_join [32]
          (filter (\<lambda>w. w \<noteq> []) (map (get_cleaned str_lower) (tokens sentence_with_dash)))
        = [1076, 1072, 1074, 1072, 1081, 1090, 1077, 32, 1084, 1072, 1081, 1089, 1082, 1080, 1093]"
    by (simp add: sentence_with_dash_def ConlluSentence_init_def first second third)
  moreover have "get_cleaned_sentence str_lower sentence_with_dash =
      str_join [32]
        (filter (\<lambda>w. w \<noteq> []) (map (get_cleaned str_lower) (tokens sentence_with_dash)))"
    and "\<not> has_double_space (get_cleaned_sentence str_lower sentence_with_dash)"
    using get_cleaned_sentence_join [of str_lower sentence_with_dash] no_space by blast+
  ultimately show ?thesis
    by (simp only: simp_thms)
qed

section \<open>Morphological parameters\<close>

text \<open>
  C9 does not hold of the code: \<open>get_morphological_parameters\<close> returns \<open>None\<close>, not
  a parameter object, both on a fresh token and after \<open>set_morphological_parameters\<close>.
\<close>

theorem morphological_parameters_none:
  "get_morphological_parameters (ConlluToken_init t) = None
   \<and> get_morphological_parameters
        (set_morphological_parameters (ConlluToken_init t) parameters) = None"
  by (simp add: get_morphological_parameters_def)

section \<open>The basic pipeline's sentences\<close>

lemma process_cases:
  "process split_by_sentence text =
     (case split_by_sentence text of
        [] \<Rightarrow> None
      | sentence # rest \<Rightarrow>
          Some [ConlluSentence_init 0 sentence (map ConlluToken_init (str_split sentence))])"
  by (simp add: process_def split: list.split)

lemma run_loop_eq:
  "run_loop split_by_sentence articles written =
     (map (\<lambda>(k, a). (k, set_conllu_sentences a (process split_by_sentence (article_text a))))
        articles,
      written @ map (\<lambda>(k, a). set_conllu_sentences a (process split_by_sentence (article_text a)))
        articles)"
  by (induction articles arbitrary: written) (auto simp add: Let_def)

text \<open>
  C2 does not hold of the code: whatever the number of sentences of the text,
  \<open>_process\<close> returns the first one alone, at position 0, with its whitespace-delimited
  tokens; the sentences after it are never built.
\<close>

theorem process_returns_first_sentence_only:
  "process split_by_sentence text =
     (case split_by_sentence text of
        [] \<Rightarrow> None
      | sentence # rest \<Rightarrow>
          Some [ConlluSentence_init 0 sentence (map ConlluToken_init (str_split sentence))])"
  by (rule process_cases)

text \<open>
  An article of two sentences: \<open>run\<close> attaches a list of one sentence to it, and asks
  the writer for that article.
\<close>

theorem run_two_sentence_article:
  "run two_sentences [(1, two_sentence_article)] =
     ([(1, two_sentence_article\<lparr>conllu_sentences :=
              Some [ConlluSentence_init 0 (ascii ''Hi there.'')
                      [ConlluToken_init (ascii ''Hi''), ConlluToken_init (ascii ''there.'')]]\<rparr>)],
      [two_sentence_article\<lparr>conllu_sentences :=
              Some [ConlluSentence_init 0 (ascii ''Hi there.'')
                      [ConlluToken_init (ascii ''Hi''), ConlluToken_init (ascii ''there.'')]]\<rparr>])"
proof -
  have "str_split (ascii ''Hi there.'') = [ascii ''Hi'', ascii ''there.'']"
    by (simp add: str_split_def ascii_def is_space_def)
  then show ?thesis
    unfolding run_def run_loop_eq process_returns_first_sentence_only
    by (simp add: two_sentences_def set_conllu_sentences_def)
qed

text \<open>
  C10: when the segmentation yields no sentence, \<open>_process\<close> returns \<open>None\<close>, not an
  empty list.
\<close>

theorem process_none_without_sentences:
  "split_by_sentence text = [] \<Longrightarrow> process split_by_sentence text = None"
  by (simp add: process_def)

theorem process_none_example:
  "no_sentences (ascii ''Hi.'') = [] \<and> process no_sentences (ascii ''Hi.'') = None"
proof -
  have "no_sentences (ascii ''Hi.'') = []"
    by (simp add: no_sentences_def)
  then show ?thesis
    using process_none_without_sentences [of no_sentences "ascii ''Hi.''"] by simp
qed

section \<open>Validating the corpus\<close>

lemma glob_all: "glob [] node = listing node"
  by (simp add: glob_def endswith_def)

lemma int_of_character_cases:
  "int_of_character c = Inl ValueError \<or> (\<exists>i. int_of_character c = Inr i \<and> 0 \<le> i \<and> i \<le> 9)"
  by (auto simp add: int_of_character_def)

lemma raw_id_cases:
  "raw_id f = Inl IndexError \<or> raw_id f = Inl ValueError
     \<or> (\<exists>i. raw_id f = Inr i \<and> 0 \<le> i \<and> i \<le> 9)"
  using int_of_character_cases [of "last (takeWhile (\<lambda>c. c \<noteq> 95) f)"]
  by (auto simp add: raw_id_def Let_def)

lemma collect_ids_digits:
  "collect_ids fs = Inr ids \<Longrightarrow> \<forall>i\<in>set ids. 0 \<le> i \<and> i \<le> 9"
proof (induction fs arbitrary: ids)
  case Nil
  then show ?case by simp
next
  case (Cons f fs)
  then show ?case
    using raw_id_cases [of f]
    by (auto split: sum.splits)
qed

lemma collect_ids_errors:
  "collect_ids fs = Inl e \<Longrightarrow> e = IndexError \<or> e = ValueError"
proof (induction fs)
  case Nil
  then show ?case by simp
next
  case (Cons f fs)
  then show ?case
    using raw_id_cases [of f]
    by (auto split: sum.splits)
qed

lemma first_file_check_errors:
  "first_file_check fs = Inl e \<Longrightarrow> e = IndexError \<or> e = InconsistentDatasetError"
  by (auto simp add: first_file_check_def split: list.splits if_splits)

lemma every_second_hd:
  "xs \<noteq> [] \<Longrightarrow> every_second xs \<noteq> [] \<and> hd (every_second xs) = hd xs"
  by (induction xs rule: every_second.induct) simp_all

lemma upto_from_one: "[1..m] = [] \<or> hd [1..m] = 1"
  by (simp add: upto.simps)

lemma sorted_hd_least: "sorted xs \<Longrightarrow> x \<in> set xs \<Longrightarrow> hd xs \<le> x"
  by (cases xs) auto

lemma sort_hd_zero:
  fixes ids :: "int list"
  assumes "0 \<in> set ids" and "\<forall>i\<in>set ids. 0 \<le> i"
  shows "sort ids \<noteq> [] \<and> hd (sort ids) = 0"
proof -
  from assms(1) have ne: "sort ids \<noteq> []"
    by (metis empty_iff empty_set set_sort)
  have "hd (sort ids) \<le> 0"
    using assms(1) by (intro sorted_hd_least) simp_all
  moreover from ne have "hd (sort ids) \<in> set ids"
    by (metis hd_in_set set_sort)
  ultimately show ?thesis
    using assms(2) ne by force
qed

lemma range_differs:
  fixes ids :: "int list"
  assumes "0 \<in> set ids" and "\<forall>i\<in>set ids. 0 \<le> i"
  shows "[1..last (sort ids)] \<noteq> every_second (sort ids)"
proof -
  from assms have "sort ids \<noteq> []" and "hd (sort ids) = 0"
    using sort_hd_zero by blast+
  then have "every_second (sort ids) \<noteq> []" and "hd (every_second (sort ids)) = 0"
    using every_second_hd [of "sort ids"] by simp_all
  then show ?thesis
    using upto_from_one [of "last (sort ids)"] by force
qed

lemma validate_dataset_never_empty_directory:
  "validate_dataset path node \<noteq> Inl EmptyDirectoryError"
proof (cases node)
  case Missing
  then show ?thesis by (simp add: validate_dataset_def)
next
  case NotDirectory
  then show ?thesis by (simp add: validate_dataset_def)
next
  case (Directory entries)
  show ?thesis
    unfolding validate_dataset_def Directory
    by (auto simp add: Let_def iterdir_truthy_def split: sum.splits
        dest: collect_ids_errors first_file_check_errors)
qed

lemma validate_dataset_empty_directory:
  "validate_dataset path (Directory []) = Inl IndexError"
  by (simp add: validate_dataset_def glob_def listing_def)

lemma validate_corpus_of_three: "validate_dataset tmp_articles corpus_of_three = Inr ()"
  by code_simp

lemma validate_gap_corpus: "validate_dataset tmp_articles gap_corpus = Inr ()"
  by code_simp

lemma validate_corpus_1_2_4:
  "validate_dataset tmp_articles corpus_1_2_4 = Inl InconsistentDatasetError"
  by code_simp

lemma validate_corpus_with_empty_file:
  "validate_dataset tmp_articles corpus_with_empty_file = Inr ()"
  by code_simp

text \<open>
  A corpus of three articles is accepted and registered under the IDs 1, 2 and 3; the
  one with the articles 1, 2 and 4 is refused.
\<close>

lemma corpus_of_three_constructed:
  "map fst (get_articles (projr
      (CorpusManager_init get_article_id_from_filepath (\<lambda>f. f) tmp_articles corpus_of_three)))
     = [1, 2, 3]"
  unfolding CorpusManager_init_def validate_corpus_of_three
  by code_simp

lemma corpus_1_2_4_rejected:
  "CorpusManager_init get_id from_raw tmp_articles corpus_1_2_4 = Inl InconsistentDatasetError"
  by (simp add: CorpusManager_init_def validate_corpus_1_2_4)

text \<open>
  C1 does not hold of the code: the ID check reads one digit, the last character before
  the first underscore of the path. Whenever that digit is 0 for some file of the
  directory (article 10, 20, ...), the sorted digits start with 0, the range from 1
  cannot equal them, and the construction ends with \<open>InconsistentDatasetError\<close>.
\<close>

theorem construction_rejects_id_ending_in_zero:
  assumes ids: "collect_ids (map (\<lambda>e. joinpath path (entry_name e)) (listing node)) = Inr ids"
      and zero: "0 \<in> set ids"
  shows "CorpusManager_init get_id from_raw path node = Inl InconsistentDatasetError"
proof -
  from zero have "ids \<noteq> []" by auto
  with ids obtain entries where node: "node = Directory entries"
    by (cases node) (auto simp add: listing_def)
  from ids have "\<forall>i\<in>set ids. 0 \<le> i"
    using collect_ids_digits by blast
  with zero have "[1..last (sort ids)] \<noteq> every_second (sort ids)" and "sort ids \<noteq> []"
    using range_differs sort_hd_zero by blast+
  with ids have "validate_dataset path node = Inl InconsistentDatasetError"
    by (simp add: validate_dataset_def node glob_all Let_def)
  then show ?thesis
    by (simp add: CorpusManager_init_def)
qed

text \<open>The corpus of the articles 1 to 10, complete and with no empty file, is refused.\<close>

theorem corpus_of_ten_rejected:
  "CorpusManager_init get_article_id_from_filepath (\<lambda>f. f) tmp_articles corpus_of_ten
     = Inl InconsistentDatasetError"
proof -
  have "collect_ids (map (\<lambda>e. joinpath tmp_articles (entry_name e)) (listing corpus_of_ten))
          = Inr [1, 1, 2, 2, 3, 3, 4, 4, 5, 5, 6, 6, 7, 7, 8, 8, 9, 9, 0, 0]"
    by code_simp
  moreover have "(0::int) \<in> set [1, 1, 2, 2, 3, 3, 4, 4, 5, 5, 6, 6, 7, 7, 8, 8, 9, 9, 0, 0]"
    by simp
  ultimately show ?thesis
    by (rule construction_rejects_id_ending_in_zero)
qed

text \<open>
  C3 does not hold of the code: with the articles 1, 2 and 13 in the directory, the IDs
  3 to 12 missing, the digits read are 1, 2 and 3, the check passes and the manager is
  built.
\<close>

theorem gap_corpus_constructed:
  "CorpusManager_init get_id from_raw tmp_articles gap_corpus =
     Inr \<lparr>path_to_raw_txt_data = tmp_articles,
          storage = scan_dataset get_id from_raw tmp_articles gap_corpus []\<rparr>"
  by (simp add: CorpusManager_init_def validate_gap_corpus)

theorem gap_corpus_articles:
  "map fst (get_articles (projr
      (CorpusManager_init get_article_id_from_filepath (\<lambda>f. f) tmp_articles gap_corpus)))
     = [1, 2, 13]"
  unfolding gap_corpus_constructed
  by code_simp

text \<open>
  C4 does not hold of the code: on a directory without entries the construction ends
  with \<open>IndexError\<close>, raised by \<open>raw_ids[-1]\<close>; and no input at all makes it end with
  \<open>EmptyDirectoryError\<close>.
\<close>

theorem empty_directory_index_error:
  "CorpusManager_init get_id from_raw path (Directory []) = Inl IndexError
   \<and> CorpusManager_init get_id from_raw path node \<noteq> Inl EmptyDirectoryError"
proof
  show "CorpusManager_init get_id from_raw path (Directory []) = Inl IndexError"
    by (simp add: CorpusManager_init_def validate_dataset_empty_directory)
  show "CorpusManager_init get_id from_raw path node \<noteq> Inl EmptyDirectoryError"
    using validate_dataset_never_empty_directory [of path node]
    by (cases "validate_dataset path node") (simp_all add: CorpusManager_init_def)
qed

theorem empty_directory_example:
  "CorpusManager_init get_article_id_from_filepath (\<lambda>f. f) tmp_articles (Directory [])
     = Inl IndexError"
  using empty_directory_index_error [of get_article_id_from_filepath "\<lambda>f. f" tmp_articles Missing]
  by simp

text \<open>
  C5 does not hold of the code: only the first metadata file and the first raw file of
  the listing are measured. With an empty second raw file the manager is built.
\<close>

theorem empty_second_file_accepted:
  "CorpusManager_init get_id from_raw tmp_articles corpus_with_empty_file =
     Inr \<lparr>path_to_raw_txt_data = tmp_articles,
          storage = scan_dataset get_id from_raw tmp_articles corpus_with_empty_file []\<rparr>"
  by (simp add: CorpusManager_init_def validate_corpus_with_empty_file)

theorem empty_second_file_articles:
  "map fst (get_articles (projr
      (CorpusManager_init get_article_id_from_filepath (\<lambda>f. f) tmp_articles
         corpus_with_empty_file)))
     = [1, 2]"
  unfolding empty_second_file_accepted
  by code_simp

end
